theory Spec2Isabelle
  imports Main
begin

section \<open>The application state aggregate (client/src/constants/types.ts)\<close>

text \<open>
  The interface \<open>AppState\<close> declares eighteen required fields. It is kept as the list of
  its declarations, field name and declared type, in the order of the source (the
  commented-out \<open>form\<close> field is not a declaration).
\<close>

definition AppState :: "(string \<times> string) list" where
  "AppState =
    [(''projects'', ''ProjectStateSchema''),
     (''experiments'', ''ExperimentStateSchema''),
     (''experimentsParams'', ''ExperimentParamStateSchema''),
     (''groups'', ''GroupStateSchema''),
     (''jobs'', ''JobStateSchema''),
     (''builds'', ''BuildStateSchema''),
     (''experimentJobs'', ''ExperimentJobStateSchema''),
     (''modal'', ''ModalStateSchema''),
     (''auth'', ''TokenStateSchema''),
     (''healthStatus'', ''HealthStatusStateSchema''),
     (''users'', ''UserStateSchema''),
     (''logs'', ''string''),
     (''statuses'', ''StatusStateSchema''),
     (''metrics'', ''MetricStateSchema''),
     (''activityLogs'', ''ActivityLogsStateSchema''),
     (''searches'', ''SearchesStateSchema''),
     (''chartViews'', ''ChartViewStateSchema''),
     (''codeReferences'', ''CodeReferenceStateSchema'')]"

definition declared_keys :: "string list" where
  "declared_keys = map fst AppState"

text \<open>
  The values of \<open>AppEmptyState\<close> are the default constants imported from the models'
  modules, and one string literal. The modules are outside this file, so an imported
  constant is kept by its name: each one is an exported constant of its module, hence a
  defined value.
\<close>

datatype imported_default =
    ProjectsEmptyState
  | ExperimentsEmptyState
  | ExperimentsParamsEmptyState
  | GroupsEmptyState
  | JobsEmptyState
  | BuildsEmptyState
  | ExperimentJobsEmptyState
  | TokenEmptyState
  | HealthStatusEmptyState
  | UserEmptyState
  | StatusEmptyState
  | MetricEmptyState
  | ActivityLogsEmptyState
  | SearchesEmptyState
  | ChartViewEmptyState
  | CodeReferenceEmptyState

datatype state_value = Imported imported_default | Literal string

text \<open>The object literal \<open>AppEmptyState\<close>, entry by entry, in the order of the source.\<close>

definition AppEmptyState :: "(string \<times> state_value) list" where
  "AppEmptyState =
    [(''projects'', Imported ProjectsEmptyState),
     (''experiments'', Imported ExperimentsEmptyState),
     (''experimentsParams'', Imported ExperimentsParamsEmptyState),
     (''groups'', Imported GroupsEmptyState),
     (''jobs'', Imported JobsEmptyState),
     (''builds'', Imported BuildsEmptyState),
     (''experimentJobs'', Imported ExperimentJobsEmptyState),
     (''auth'', Imported TokenEmptyState),
     (''healthStatus'', Imported HealthStatusEmptyState),
     (''user'', Imported UserEmptyState),
     (''logs'', Literal []),
     (''statuses'', Imported StatusEmptyState),
     (''metrics'', Imported MetricEmptyState),
     (''activityLogs'', Imported ActivityLogsEmptyState),
     (''searches'', Imported SearchesEmptyState),
     (''chartViews'', Imported ChartViewEmptyState),
     (''codeReferences'', Imported CodeReferenceEmptyState)]"

text \<open>
  Reading a property of a JavaScript object: the value stored under the key, and
  \<open>undefined\<close> (here \<open>None\<close>) when the object has no such key.
\<close>

definition read_key :: "(string \<times> state_value) list \<Rightarrow> string \<Rightarrow> state_value option" where
  "read_key obj k = map_of obj k"

definition populated_keys :: "string list" where
  "populated_keys = map fst AppEmptyState"

text \<open>The declared keys the default object has no entry for, in declaration order.\<close>

definition missing_keys :: "string list" where
  "missing_keys = filter (\<lambda>k. read_key AppEmptyState k = None) declared_keys"

text \<open>The keys the default object populates although the type does not declare them.\<close>

definition undeclared_keys :: "string list" where
  "undeclared_keys = filter (\<lambda>k. k \<notin> set declared_keys) populated_keys"

section \<open>The group overview (client/src/components/groups/groupOverview.tsx)\<close>

subsection \<open>Values, props and the element tree\<close>

text \<open>The JavaScript values the component handles: what it shows and what an editor saves.\<close>

datatype jsval =
    JSUndefined
  | JSNull
  | JSBool bool
  | JSNum int
  | JSStr string
  | JSArr "jsval list"

text \<open>The argument of \<open>onUpdate\<close>, of type \<open>{ [key: string]: any }\<close>: keys with their values.\<close>

type_synonym updateDict = "(string \<times> jsval) list"

text \<open>
  Modelled from the spec: the class \<open>GroupModel\<close> (models/group) is not among the
  sources. The record has the fields that \<open>render\<close> reads, typed as the spec's data
  model describes them: texts and identifiers as strings (the spec's example
  identifiers are \<open>"p1"\<close> and \<open>"g7"\<close>), counts and the iteration as integers, the
  dashboard flag as a boolean. The field \<open>id\<close> is named \<open>id_field\<close>.
\<close>

record GroupModel =
  id_field :: string
  project :: string
  description :: string
  readme :: string
  tags :: "string list"
  user :: string
  created_at :: string
  updated_at :: string
  started_at :: string
  finished_at :: string
  last_status :: string
  search_algorithm :: string
  concurrency :: int
  current_iteration :: int
  num_experiments :: int
  num_scheduled_experiments :: int
  num_pending_experiments :: int
  num_running_experiments :: int
  num_succeeded_experiments :: int
  num_failed_experiments :: int
  num_stopped_experiments :: int
  has_tensorboard :: bool

text \<open>
  The prop \<open>group\<close> may be absent: \<open>null\<close> or \<open>undefined\<close>. lodash's \<open>_.isNil\<close> is true
  of exactly these two.
\<close>

datatype 'g nilable = Null | Undefined | Present 'g

fun isNil :: "'g nilable \<Rightarrow> bool" where
  "isNil Null = True"
| "isNil Undefined = True"
| "isNil (Present g) = False"

text \<open>
  \<open>Props\<close>. The callback \<open>onUpdate\<close> is the caller's: it acts on the caller's store, of
  type \<open>'s\<close>, and returns an action, of type \<open>'a\<close>.
\<close>

record ('a, 's) Props =
  group :: "GroupModel nilable"
  onUpdate :: "updateDict \<Rightarrow> 's \<Rightarrow> 'a \<times> 's"

text \<open>
  A React element has a type (an HTML tag or a component), its props in the order they
  are written, and children. A prop holds a value or a callback; a callback takes the
  saved value and acts on the store. A child may also be a text, or the boolean
  \<open>false\<close> that \<open>cond && <X/>\<close> evaluates to when \<open>cond\<close> is false and for which React
  shows nothing.
\<close>

datatype elem_type = Html string | Component string

datatype 's prop_value = Val jsval | Callback "jsval \<Rightarrow> 's \<Rightarrow> 's"

datatype 's node =
    Element elem_type "(string \<times> 's prop_value) list" "'s node list"
  | Text string
  | BoolFalse

text \<open>
  The two functions \<open>render\<close> calls from other modules, \<open>getGroupTensorboardUrl\<close>
  (constants/utils) and \<open>EmptyList\<close> (components/empty/emptyList), are not among the
  sources: they are parameters of the model.
\<close>

record 's collaborators =
  getGroupTensorboardUrl :: "string \<Rightarrow> string \<Rightarrow> string"
  EmptyList :: "bool \<Rightarrow> string \<Rightarrow> string \<Rightarrow> 's node"

subsection \<open>render\<close>

text \<open>
  \<open>render\<close> takes the store and returns it with the tree. Nothing in its body acts on
  the store: \<open>onUpdate\<close> occurs only inside the three \<open>onSave\<close> callbacks, each of which
  calls it once with an object literal of one property and drops the action it returns.
\<close>

definition render :: "'s collaborators \<Rightarrow> ('a, 's) Props \<Rightarrow> 's \<Rightarrow> 's node \<times> 's" where
  "render c props s =
    (case group props of
      Null \<Rightarrow> (EmptyList c False ''experiment group'' ''group'', s)
    | Undefined \<Rightarrow> (EmptyList c False ''experiment group'' ''group'', s)
    | Present g \<Rightarrow>
       (Element (Html ''div'') [(''className'', Val (JSStr ''entity-details''))]
         [Element (Html ''div'') [(''className'', Val (JSStr ''row''))]
           [Element (Html ''div'') [(''className'', Val (JSStr ''col-md-12''))]
             [Element (Component ''Description'')
                [(''description'', Val (JSStr (description g))),
                 (''showEmpty'', Val (JSBool True)),
                 (''onSave'', Callback (\<lambda>description s.
                    snd (onUpdate props [(''description'', description)] s)))] [],
              Element (Html ''div'') [(''className'', Val (JSStr ''meta''))]
                [Element (Component ''UserMetaInfo'')
                   [(''user'', Val (JSStr (user g))), (''inline'', Val (JSBool True))] [],
                 Element (Component ''DatesMetaInfo'')
                   [(''createdAt'', Val (JSStr (created_at g))),
                    (''updatedAt'', Val (JSStr (updated_at g))),
                    (''inline'', Val (JSBool True))] []],
              Element (Html ''div'') [(''className'', Val (JSStr ''meta''))]
                [Element (Component ''TaskRunMetaInfo'')
                   [(''startedAt'', Val (JSStr (started_at g))),
                    (''finishedAt'', Val (JSStr (finished_at g))),
                    (''inline'', Val (JSBool True))] [],
                 Element (Component ''Status'')
                   [(''status'', Val (JSStr (last_status g)))] []],
              Element (Html ''div'') [(''className'', Val (JSStr ''meta''))]
                [Element (Component ''SearchAlgorithmMetaInfo'')
                   [(''searchAlgorithm'', Val (JSStr (search_algorithm g))),
                    (''inline'', Val (JSBool True))] [],
                 Element (Component ''ConcurrencyMetaInfo'')
                   [(''concurrency'', Val (JSNum (concurrency g))),
                    (''inline'', Val (JSBool True))] [],
                 (if current_iteration g > 0
                  then Element (Component ''MetaInfo'')
                    [(''icon'', Val (JSStr ''fa-refresh'')),
                     (''name'', Val (JSStr ''Iteration'')),
                     (''value'', Val (JSNum (current_iteration g))),
                     (''inline'', Val (JSBool True))] []
                  else BoolFalse)],
              Element (Html ''div'') [(''className'', Val (JSStr ''meta''))]
                [Element (Component ''ExperimentCountMetaInfo'')
                   [(''count'', Val (JSNum (num_experiments g))),
                    (''inline'', Val (JSBool True))] [],
                 Element (Component ''MetaInfo'')
                   [(''icon'', Val (JSStr ''fa-hourglass-1'')),
                    (''name'', Val (JSStr ''Scheduled'')),
                    (''value'', Val (JSNum (num_scheduled_experiments g))),
                    (''inline'', Val (JSBool True))] [],
                 Element (Component ''MetaInfo'')
                   [(''icon'', Val (JSStr ''fa-hourglass-end'')),
                    (''name'', Val (JSStr ''Pending'')),
                    (''value'', Val (JSNum (num_pending_experiments g))),
                    (''inline'', Val (JSBool True))] [],
                 Element (Component ''MetaInfo'')
                   [(''icon'', Val (JSStr ''fa-bolt'')),
                    (''name'', Val (JSStr ''Running'')),
                    (''value'', Val (JSNum (num_running_experiments g))),
                    (''inline'', Val (JSBool True))] [],
                 Element (Component ''MetaInfo'')
                   [(''icon'', Val (JSStr ''fa-check'')),
                    (''name'', Val (JSStr ''Succeeded'')),
                    (''value'', Val (JSNum (num_succeeded_experiments g))),
                    (''inline'', Val (JSBool True))] [],
                 Element (Component ''MetaInfo'')
                   [(''icon'', Val (JSStr ''fa-close'')),
                    (''name'', Val (JSStr ''Failed'')),
                    (''value'', Val (JSNum (num_failed_experiments g))),
                    (''inline'', Val (JSBool True))] [],
                 Element (Component ''MetaInfo'')
                   [(''icon'', Val (JSStr ''fa-stop'')),
                    (''name'', Val (JSStr ''Stopped'')),
                    (''value'', Val (JSNum (num_stopped_experiments g))),
                    (''inline'', Val (JSBool True))] []],
              (if has_tensorboard g
               then Element (Html ''div'') [(''className'', Val (JSStr ''meta''))]
                 [Element (Html ''span'') [(''className'', Val (JSStr ''meta-info meta-dashboard''))]
                   [Element (Html ''i'')
                      [(''className'', Val (JSStr ''fa fa-link icon'')),
                       (''aria-hidden'', Val (JSStr ''true''))] [],
                    Element (Html ''a'')
                      [(''href'', Val (JSStr (getGroupTensorboardUrl c (project g) (id_field g)))),
                       (''className'', Val (JSStr ''title-link''))]
                      [Text ''Tensorboard'']]]
               else BoolFalse),
              Element (Component ''Tags'')
                [(''tags'', Val (JSArr (map JSStr (tags g)))),
                 (''onSave'', Callback (\<lambda>tags s. snd (onUpdate props [(''tags'', tags)] s)))] [],
              Element (Component ''MDEditor'')
                [(''content'', Val (JSStr (readme g))),
                 (''onSave'', Callback (\<lambda>readme s.
                    snd (onUpdate props [(''readme'', readme)] s)))] []]]],
        s))"

subsection \<open>Reading a rendered tree\<close>

text \<open>Every node of a tree, the node itself first, then its children's, in document order.\<close>

fun descendants :: "'s node \<Rightarrow> 's node list" where
  "descendants (Element ty ps cs) = Element ty ps cs # concat (map descendants cs)"
| "descendants (Text x) = [Text x]"
| "descendants BoolFalse = [BoolFalse]"

fun has_type :: "elem_type \<Rightarrow> 's node \<Rightarrow> bool" where
  "has_type ty (Element ty' ps cs) = (ty' = ty)"
| "has_type ty (Text x) = False"
| "has_type ty BoolFalse = False"

fun get_prop :: "'s node \<Rightarrow> string \<Rightarrow> 's prop_value option" where
  "get_prop (Element ty ps cs) k = map_of ps k"
| "get_prop (Text x) k = None"
| "get_prop BoolFalse k = None"

definition has_name :: "string \<Rightarrow> 's node \<Rightarrow> bool" where
  "has_name nm n = (get_prop n ''name'' = Some (Val (JSStr nm)))"

text \<open>
  The metadata widgets of a tree: its \<open>MetaInfo\<close> and \<open>ExperimentCountMetaInfo\<close> elements.
  The iteration widget is the \<open>MetaInfo\<close> named \<open>Iteration\<close>; the outcome-count widgets
  are all the others.
\<close>

definition meta_widgets :: "'s node \<Rightarrow> 's node list" where
  "meta_widgets t =
    filter (\<lambda>n. has_type (Component ''MetaInfo'') n \<or> has_type (Component ''ExperimentCountMetaInfo'') n)
      (descendants t)"

definition iteration_widgets :: "'s node \<Rightarrow> 's node list" where
  "iteration_widgets t = filter (has_name ''Iteration'') (meta_widgets t)"



text \<open>The hyperlinks of a tree: its \<open>a\<close> elements.\<close>

definition links :: "'s node \<Rightarrow> 's node list" where
  "links t = filter (has_type (Html ''a'')) (descendants t)"

text \<open>
  Saving in an editor: the first element of the tree with that component is found, and
  its \<open>onSave\<close> callback runs on the saved value and the store. \<open>None\<close> when the tree has
  no such editor, or the editor no such callback.
\<close>

definition save :: "string \<Rightarrow> jsval \<Rightarrow> 's node \<Rightarrow> 's \<Rightarrow> 's option" where
  "save editor v t s =
    (case List.find (has_type (Component editor)) (descendants t) of
      None \<Rightarrow> None
    | Some n \<Rightarrow>
       (case get_prop n ''onSave'' of
         Some (Callback h) \<Rightarrow> Some (h v s)
       | Some (Val x) \<Rightarrow> None
       | None \<Rightarrow> None))"

text \<open>Every callback held by a prop of some element of a tree, in document order.\<close>

fun node_callbacks :: "'s node \<Rightarrow> (jsval \<Rightarrow> 's \<Rightarrow> 's) list" where
  "node_callbacks (Element ty ps cs) =
     concat (map (\<lambda>kv. case snd kv of Callback h \<Rightarrow> [h] | Val x \<Rightarrow> []) ps)"
| "node_callbacks (Text x) = []"
| "node_callbacks BoolFalse = []"

definition callbacks :: "'s node \<Rightarrow> (jsval \<Rightarrow> 's \<Rightarrow> 's) list" where
  "callbacks t = concat (map node_callbacks (descendants t))"

text \<open>
  What a tree shows: the tree with every callback prop reduced to its key, so that
  trees over different stores and callbacks can be compared.
\<close>

datatype shown = ShownElement elem_type "(string \<times> jsval option) list" "shown list"
  | ShownText string
  | ShownFalse

fun shown_value :: "'s prop_value \<Rightarrow> jsval option" where
  "shown_value (Val x) = Some x"
| "shown_value (Callback h) = None"

fun visible :: "'s node \<Rightarrow> shown" where
  "visible (Element ty ps cs) =
     ShownElement ty (map (\<lambda>kv. (fst kv, shown_value (snd kv))) ps) (map visible cs)"
| "visible (Text x) = ShownText x"
| "visible BoolFalse = ShownFalse"

text \<open>
  A recording callback: the store is the list of the payloads \<open>onUpdate\<close> has been called
  with, oldest first, and every call appends its payload.
\<close>

definition record_call :: "updateDict \<Rightarrow> updateDict list \<Rightarrow> unit \<times> updateDict list" where
  "record_call payload calls = ((), calls @ [payload])"

subsection \<open>Concrete inputs\<close>

text \<open>
  Stand-ins for the two outside functions, and the group of the spec's examples:
  project \<open>p1\<close>, group \<open>g7\<close>, iteration 5, the dashboard available, outcome counts
  1, 2, 3, 4, 0, 0.
\<close>

definition sample_collaborators :: "(updateDict list) collaborators" where
  "sample_collaborators =
    \<lparr>getGroupTensorboardUrl = (\<lambda>projectName groupId.
        ''/tensorboard/'' @ projectName @ ''/groups/'' @ groupId @ ''/''),
     EmptyList = (\<lambda>isEmpty name image.
        Element (Component ''EmptyList'')
          [(''isEmpty'', Val (JSBool isEmpty)), (''name'', Val (JSStr name)),
           (''image'', Val (JSStr image))] [])\<rparr>"

definition sample_group :: GroupModel where
  "sample_group =
    \<lparr>id_field = ''g7'', project = ''p1'', description = ''a sweep'', readme = ''# notes'',
     tags = [''tf'', ''cnn''], user = ''alice'',
     created_at = ''2018-01-01'', updated_at = ''2018-01-02'',
     started_at = ''2018-01-01'', finished_at = ''2018-01-03'',
     last_status = ''running'', search_algorithm = ''grid'', concurrency = 2,
     current_iteration = 5, num_experiments = 10,
     num_scheduled_experiments = 1, num_pending_experiments = 2,
     num_running_experiments = 3, num_succeeded_experiments = 4,
     num_failed_experiments = 0, num_stopped_experiments = 0,
     has_tensorboard = True\<rparr>"

definition sample_props :: "GroupModel nilable \<Rightarrow> (unit, updateDict list) Props" where
  "sample_props g = \<lparr>group = g, onUpdate = record_call\<rparr>"

section \<open>Properties of the state aggregate\<close>

lemma declared_keys_eval:
  "declared_keys =
    [''projects'', ''experiments'', ''experimentsParams'', ''groups'', ''jobs'', ''builds'',
     ''experimentJobs'', ''modal'', ''auth'', ''healthStatus'', ''users'', ''logs'',
     ''statuses'', ''metrics'', ''activityLogs'', ''searches'', ''chartViews'',
     ''codeReferences'']"
  by (simp add: declared_keys_def AppState_def)

lemma populated_keys_eval:
  "populated_keys =
    [''projects'', ''experiments'', ''experimentsParams'', ''groups'', ''jobs'', ''builds'',
     ''experimentJobs'', ''auth'', ''healthStatus'', ''user'', ''logs'',
     ''statuses'', ''metrics'', ''activityLogs'', ''searches'', ''chartViews'',
     ''codeReferences'']"
  by (simp add: populated_keys_def AppEmptyState_def)

lemma missing_keys_eval: "missing_keys = [''modal'', ''users'']"
  unfolding missing_keys_def declared_keys_eval
  by (simp add: read_key_def AppEmptyState_def)

lemma undeclared_keys_eval: "undeclared_keys = [''user'']"
  unfolding undeclared_keys_def declared_keys_eval populated_keys_eval
  by simp

text \<open>
  Claim C1: for every key declared as a field of \<open>AppState\<close>, the default singleton
  \<open>AppEmptyState\<close> has an entry with a non-undefined value at that key.

  The code does not do this. \<open>users\<close> and \<open>modal\<close> are declared, required fields of the
  interface, and reading either key of \<open>AppEmptyState\<close> gives \<open>undefined\<close>: the object
  writes the user default under the key \<open>user\<close>, and has no entry for \<open>modal\<close> at all.
\<close>

theorem default_state_misses_declared_keys:
  "''users'' \<in> set declared_keys \<and> read_key AppEmptyState ''users'' = None
   \<and> ''modal'' \<in> set declared_keys \<and> read_key AppEmptyState ''modal'' = None"
  by (simp add: declared_keys_eval read_key_def AppEmptyState_def)

text \<open>
  Claim C10: \<open>AppEmptyState\<close> diverges from \<open>AppState\<close> at exactly two declared keys. The
  declared keys without an entry are \<open>modal\<close> and \<open>users\<close>; the only populated key that
  is not declared is \<open>user\<close>; each of the other sixteen declared keys has an entry.
\<close>

theorem default_state_divergence:
  "missing_keys = [''modal'', ''users'']
   \<and> undeclared_keys = [''user'']
   \<and> filter (\<lambda>k. read_key AppEmptyState k \<noteq> None) declared_keys =
      [''projects'', ''experiments'', ''experimentsParams'', ''groups'', ''jobs'', ''builds'',
       ''experimentJobs'', ''auth'', ''healthStatus'', ''logs'', ''statuses'', ''metrics'',
       ''activityLogs'', ''searches'', ''chartViews'', ''codeReferences'']"
  by (simp add: missing_keys_eval undeclared_keys_eval declared_keys_eval read_key_def
      AppEmptyState_def)

section \<open>Properties of the group overview\<close>

subsection \<open>Conditional widgets\<close>

text \<open>
  Claim C2: for a present group, the rendered tree contains the current-iteration
  widget exactly when \<open>current_iteration\<close> is greater than 0, and the widget then shows
  the value of \<open>current_iteration\<close>. Otherwise the tree has no such widget.
\<close>

theorem iteration_widget_iff:
  "iteration_widgets (fst (render c \<lparr>group = Present g, onUpdate = u\<rparr> s)) =
    (if 0 < current_iteration g
     then [Element (Component ''MetaInfo'')
             [(''icon'', Val (JSStr ''fa-refresh'')),
              (''name'', Val (JSStr ''Iteration'')),
              (''value'', Val (JSNum (current_iteration g))),
              (''inline'', Val (JSBool True))] []]
     else [])"
proof (cases "0 < current_iteration g")
  case True
  then show ?thesis
    by (simp add: render_def iteration_widgets_def meta_widgets_def has_name_def)
next
  case False
  then show ?thesis
    by (simp add: render_def iteration_widgets_def meta_widgets_def has_name_def)
qed

text \<open>At iteration 5 the widget shows 5; at iteration 0 there is none.\<close>

theorem iteration_widget_iff_witness:
  "map (\<lambda>n. get_prop n ''value'')
     (iteration_widgets
       (fst (render sample_collaborators (sample_props (Present sample_group)) [])))
     = [Some (Val (JSNum 5))]
   \<and> iteration_widgets
       (fst (render sample_collaborators
          (sample_props (Present (sample_group\<lparr>current_iteration := 0\<rparr>))) [])) = []"
  using iteration_widget_iff [of sample_collaborators sample_group record_call "[]"]
    iteration_widget_iff [of sample_collaborators "sample_group\<lparr>current_iteration := 0\<rparr>"
      record_call "[]"]
  by (simp add: sample_props_def sample_group_def)

text \<open>
  Claim C3: for a present group, the rendered tree contains the dashboard hyperlink
  exactly when \<open>has_tensorboard\<close> is true, and the link's target is then
  \<open>getGroupTensorboardUrl\<close> applied to the group's project and identifier.
\<close>

theorem dashboard_link_iff:
  "links (fst (render c \<lparr>group = Present g, onUpdate = u\<rparr> s)) =
    (if has_tensorboard g
     then [Element (Html ''a'')
             [(''href'', Val (JSStr (getGroupTensorboardUrl c (project g) (id_field g)))),
              (''className'', Val (JSStr ''title-link''))]
             [Text ''Tensorboard'']]
     else [])"
proof (cases "has_tensorboard g")
  case True
  then show ?thesis by (simp add: render_def links_def)
next
  case False
  then show ?thesis by (simp add: render_def links_def)
qed

text \<open>Project \<open>p1\<close> and group \<open>g7\<close>; and no link without the flag.\<close>

theorem dashboard_link_iff_witness:
  "map (\<lambda>n. get_prop n ''href'')
     (links (fst (render sample_collaborators (sample_props (Present sample_group)) [])))
     = [Some (Val (JSStr (getGroupTensorboardUrl sample_collaborators ''p1'' ''g7'')))]
   \<and> links (fst (render sample_collaborators
        (sample_props (Present (sample_group\<lparr>has_tensorboard := False\<rparr>))) [])) = []"
  using dashboard_link_iff [of sample_collaborators sample_group record_call "[]"]
    dashboard_link_iff [of sample_collaborators "sample_group\<lparr>has_tensorboard := False\<rparr>"
      record_call "[]"]
  by (simp add: sample_props_def sample_group_def)

subsection \<open>The outcome counts\<close>




subsection \<open>The absent group\<close>

text \<open>
  Claim C5: for an absent group, \<open>null\<close> or \<open>undefined\<close>, \<open>render\<close> returns the placeholder
  \<open>EmptyList(false, 'experiment group', 'group')\<close> and nothing else happens: the store
  comes back as it was, so neither \<open>onUpdate\<close> nor a save callback has run.
\<close>

theorem nil_group_placeholder:
  assumes "isNil (group props)"
  shows "render c props s = (EmptyList c False ''experiment group'' ''group'', s)"
proof (cases "group props")
  case Null
  then show ?thesis by (simp add: render_def)
next
  case Undefined
  then show ?thesis by (simp add: render_def)
next
  case (Present g)
  with assms show ?thesis by simp
qed

theorem nil_group_placeholder_witness:
  "isNil (group (sample_props Null)) \<and>
   render sample_collaborators (sample_props Null) [] =
     (Element (Component ''EmptyList'')
        [(''isEmpty'', Val (JSBool False)), (''name'', Val (JSStr ''experiment group'')),
         (''image'', Val (JSStr ''group''))] [], [])"
  using nil_group_placeholder [of "sample_props Null" sample_collaborators "[]"]
  by (simp add: sample_props_def sample_collaborators_def)

subsection \<open>Saving in the editors\<close>

text \<open>
  Claim C6: for a present group and a new description \<open>v\<close>, saving in the description
  editor calls \<open>onUpdate\<close> exactly once, with the payload \<open>{description: v}\<close>. The effect
  on the store is that of this one call, whatever \<open>onUpdate\<close> is; with the recording
  callback, the record grows by this one payload.
\<close>

theorem description_save:
  "save ''Description'' (JSStr v) (fst (render c \<lparr>group = Present g, onUpdate = u\<rparr> s0)) s
     = Some (snd (u [(''description'', JSStr v)] s))
   \<and> save ''Description'' (JSStr v)
        (fst (render c' \<lparr>group = Present g, onUpdate = record_call\<rparr> s0')) calls
     = Some (calls @ [[(''description'', JSStr v)]])"
  by (simp add: render_def save_def record_call_def)

text \<open>Saving \<open>hello\<close>: one call, with \<open>{description: "hello"}\<close>.\<close>

theorem description_save_witness:
  "save ''Description'' (JSStr ''hello'')
     (fst (render sample_collaborators (sample_props (Present sample_group)) [])) []
   = Some [[(''description'', JSStr ''hello'')]]"
  using description_save [of "''hello''" sample_collaborators sample_group record_call "[]" "[]"
      sample_collaborators "[]" "[]"]
  by (simp add: sample_props_def record_call_def)

text \<open>
  Claim C7: for a present group, saving a tag list \<open>ts\<close> in the tag editor calls
  \<open>onUpdate\<close> with \<open>{tags: ts}\<close>, and saving a text \<open>txt\<close> in the readme editor calls it
  with \<open>{readme: txt}\<close>.
\<close>

theorem tags_readme_save:
  "save ''Tags'' (JSArr (map JSStr ts)) (fst (render c \<lparr>group = Present g, onUpdate = u\<rparr> s0)) s
     = Some (snd (u [(''tags'', JSArr (map JSStr ts))] s))
   \<and> save ''Tags'' (JSArr (map JSStr ts))
        (fst (render c' \<lparr>group = Present g, onUpdate = record_call\<rparr> s0')) calls
     = Some (calls @ [[(''tags'', JSArr (map JSStr ts))]])
   \<and> save ''MDEditor'' (JSStr txt) (fst (render c \<lparr>group = Present g, onUpdate = u\<rparr> s0)) s
     = Some (snd (u [(''readme'', JSStr txt)] s))
   \<and> save ''MDEditor'' (JSStr txt)
        (fst (render c' \<lparr>group = Present g, onUpdate = record_call\<rparr> s0')) calls
     = Some (calls @ [[(''readme'', JSStr txt)]])"
  by (simp add: render_def save_def record_call_def)

text \<open>
  Claim C8: every payload that reaches \<open>onUpdate\<close> has the edited field as its only key.
  The tree of a present group holds three callbacks, those of the description, tag and
  readme editors in this order; run on any value, each records one payload, whose keys
  are \<open>description\<close> alone, \<open>tags\<close> alone and \<open>readme\<close> alone.
\<close>

theorem payload_single_field:
  "map (\<lambda>h. map (map fst) (h v calls))
      (callbacks (fst (render c \<lparr>group = Present g, onUpdate = record_call\<rparr> s0)))
   = [map (map fst) calls @ [[''description'']],
      map (map fst) calls @ [[''tags'']],
      map (map fst) calls @ [[''readme'']]]"
  by (simp add: render_def callbacks_def record_call_def)

subsection \<open>The store during rendering\<close>

text \<open>
  With the store passed explicitly, \<open>render\<close> returns the store it was given, its tree
  does not depend on the store, and what the tree shows depends on the group alone,
  not on the callback.
\<close>

lemma render_leaves_store:
  "render c \<lparr>group = g, onUpdate = u\<rparr> s = (fst (render c \<lparr>group = g, onUpdate = u\<rparr> s'), s)
   \<and> visible (fst (render c \<lparr>group = g, onUpdate = u\<rparr> s))
     = visible (fst (render c \<lparr>group = g, onUpdate = u'\<rparr> s'))"
proof (cases g)
  case Null
  then show ?thesis by (simp add: render_def)
next
  case Undefined
  then show ?thesis by (simp add: render_def)
next
  case (Present gm)
  have store: "snd (render c \<lparr>group = Present gm, onUpdate = u\<rparr> s) = s"
    by (simp add: render_def)
  have tree: "fst (render c \<lparr>group = Present gm, onUpdate = u\<rparr> s)
      = fst (render c \<lparr>group = Present gm, onUpdate = u\<rparr> s')"
    by (simp add: render_def)
  have seen: "visible (fst (render c \<lparr>group = Present gm, onUpdate = u\<rparr> s))
      = visible (fst (render c \<lparr>group = Present gm, onUpdate = u'\<rparr> s'))"
    by (simp add: render_def)
  from store tree seen Present show ?thesis
    by (simp add: prod_eq_iff)
qed

end
